theory Spec2Isabelle
  imports Main
begin

section \<open>Data model of the authentication client (lib/auth.ts)\<close>

text \<open>
  The TypeScript interfaces \<open>User\<close>, \<open>AuthResponse\<close> and \<open>LoginCredentials\<close>.
  The field \<open>id\<close> of \<open>User\<close> is called \<open>user_id\<close> here, the field \<open>user\<close> of
  \<open>AuthResponse\<close> is \<open>resp_user\<close> and the field \<open>email\<close> of the credentials is
  \<open>cred_email\<close>, since record fields are global names.
\<close>

record user =
  user_id :: string
  email :: string
  name :: string
  role :: string
  is_active :: bool
  skills :: "string list"
  learning_progress :: "(string \<times> string) list"
  created_at :: string
  last_active :: "string option"

record auth_response =
  access_token :: string
  token_type :: string
  expires_in :: int
  resp_user :: user

record login_credentials =
  cred_email :: string
  password :: string

text \<open>
  JavaScript exceptions that can reach this code: \<open>new Error(message)\<close> thrown by the
  client itself, the \<open>SyntaxError\<close> of \<open>JSON.parse\<close> and \<open>response.json()\<close>, and the
  \<open>TypeError\<close> with which \<open>fetch\<close> rejects when the server cannot be reached.
\<close>

datatype error = Error string | SyntaxError | TypeError

section \<open>The browser environment\<close>

text \<open>
  \<open>window\<close> holds what the client touches of the browser: \<open>localStorage\<close>, the
  cookie jar behind \<open>document.cookie\<close> (cookie name to value), and the browser's reading
  of a string assigned to \<open>document.cookie\<close> on this page: store a value under a name,
  delete a name, or ignore the assignment. That reading (\<open>cookie_setter\<close>) is a
  parameter of the model: it depends on the whole string (the value ends at the first
  semicolon, what follows is read as attributes) and on the page (a secure cookie is
  refused on an insecure origin). The environment is \<open>None\<close> where
  \<open>typeof window === 'undefined'\<close> (server-side render).
\<close>

datatype cookie_action = Store string string | Delete string | Ignore

record window =
  localStorage :: "string \<rightharpoonup> string"
  cookie :: "string \<rightharpoonup> string"
  cookie_setter :: "string \<Rightarrow> cookie_action"

type_synonym env = "window option"

text \<open>
  \<open>JSON.stringify\<close> and \<open>JSON.parse\<close> on user objects are parameters of the model.
  \<open>parse\<close> yields \<open>Inl SyntaxError\<close> where \<open>JSON.parse\<close> throws, and a value of the
  type \<open>User | null\<close> that \<open>getUser\<close> declares otherwise.
\<close>

record JSON =
  stringify :: "user \<Rightarrow> string"
  parse :: "string \<Rightarrow> error + user option"

datatype cookie_attr = Path string | Secure | SameSite string | Expires string

definition epoch :: string where
  "epoch = ''Thu, 01 Jan 1970 00:00:00 GMT''"

text \<open>
  The string that the template literal \<open>name=value; attribute; ...\<close> of the source
  builds: the value is spliced in as it is.
\<close>

fun attr_string :: "cookie_attr \<Rightarrow> string" where
  "attr_string (Path p) = ''path='' @ p"
| "attr_string Secure = ''secure''"
| "attr_string (SameSite x) = ''samesite='' @ x"
| "attr_string (Expires d) = ''expires='' @ d"

definition cookie_string :: "string \<Rightarrow> string \<Rightarrow> cookie_attr list \<Rightarrow> string" where
  "cookie_string k v attrs = k @ ''='' @ v @ concat (map (\<lambda>a. ''; '' @ attr_string a) attrs)"

text \<open>
  Assigning that string to \<open>document.cookie\<close>: when the assignment carries the expiry
  date of the epoch the browser deletes the cookie of that name; what it does with any
  other assignment is its own reading of the string, \<open>cookie_setter\<close>.
\<close>

definition set_cookie :: "string \<Rightarrow> string \<Rightarrow> cookie_attr list \<Rightarrow> window \<Rightarrow> window" where
  "set_cookie k v attrs w =
     (if Expires epoch \<in> set attrs then w\<lparr>cookie := (cookie w)(k := None)\<rparr>
      else
        (case cookie_setter w (cookie_string k v attrs) of
           Store n x \<Rightarrow> w\<lparr>cookie := (cookie w)(n \<mapsto> x)\<rparr>
         | Delete n \<Rightarrow> w\<lparr>cookie := (cookie w)(n := None)\<rparr>
         | Ignore \<Rightarrow> w))"

definition setItem :: "string \<Rightarrow> string \<Rightarrow> window \<Rightarrow> window" where
  "setItem k v w = w\<lparr>localStorage := (localStorage w)(k \<mapsto> v)\<rparr>"

definition removeItem :: "string \<Rightarrow> window \<Rightarrow> window" where
  "removeItem k w = w\<lparr>localStorage := (localStorage w)(k := None)\<rparr>"

text \<open>JavaScript truthiness of a value of type \<open>string | null\<close>: \<open>null\<close> and \<open>""\<close> are falsy.\<close>

definition truthy :: "string option \<Rightarrow> bool" where
  "truthy t = (case t of None \<Rightarrow> False | Some s \<Rightarrow> s \<noteq> [])"

section \<open>Token Store: the static accessors of AuthService\<close>

definition TOKEN_KEY :: string where
  "TOKEN_KEY = ''rampforge_token''"

definition USER_KEY :: string where
  "USER_KEY = ''rampforge_user''"

definition getToken :: "env \<Rightarrow> string option" where
  "getToken e = (case e of None \<Rightarrow> None | Some w \<Rightarrow> localStorage w TOKEN_KEY)"

definition setToken :: "string \<Rightarrow> env \<Rightarrow> env" where
  "setToken token e =
     (case e of
        None \<Rightarrow> None
      | Some w \<Rightarrow>
          Some (set_cookie TOKEN_KEY token [Path ''/'', Secure, SameSite ''strict'']
                  (setItem TOKEN_KEY token w)))"

definition removeToken :: "env \<Rightarrow> env" where
  "removeToken e =
     (case e of
        None \<Rightarrow> None
      | Some w \<Rightarrow>
          Some (set_cookie TOKEN_KEY [] [Path ''/'', Expires epoch]
                  (removeItem USER_KEY (removeItem TOKEN_KEY w))))"

definition getUser :: "JSON \<Rightarrow> env \<Rightarrow> error + user option" where
  "getUser J e =
     (case e of
        None \<Rightarrow> Inr None
      | Some w \<Rightarrow>
          (case localStorage w USER_KEY of
             None \<Rightarrow> Inr None
           | Some userStr \<Rightarrow> if userStr \<noteq> [] then parse J userStr else Inr None))"

definition setUser :: "JSON \<Rightarrow> user \<Rightarrow> env \<Rightarrow> env" where
  "setUser J u e =
     (case e of None \<Rightarrow> None | Some w \<Rightarrow> Some (setItem USER_KEY (stringify J u) w))"

section \<open>Remote calls of AuthService\<close>

text \<open>
  A \<open>fetch\<close> either rejects (the server cannot be reached) or resolves to a response.
  Of a response the client reads \<open>status\<close>, \<open>ok\<close> and the outcome of \<open>response.json()\<close>:
  a rejection, or the parsed body. Of a parsed body it reads the fields \<open>detail\<close> and
  \<open>message\<close> (absent: \<open>None\<close>) on a failure response, and the body at the type the
  caller declares (\<open>payload\<close>) on a success response.
\<close>

record 'a body =
  detail :: "string option"
  message :: "string option"
  payload :: 'a

record 'a response =
  status :: nat
  json :: "error + 'a body"

datatype 'a fetched = Rejected error | Resolved "'a response"

definition ok :: "'a response \<Rightarrow> bool" where
  "ok r \<longleftrightarrow> 200 \<le> status r \<and> status r \<le> 299"

text \<open>JavaScript \<open>a || b\<close> for a possibly absent string \<open>a\<close>.\<close>

definition or_default :: "string option \<Rightarrow> string \<Rightarrow> string" where
  "or_default a b = (case a of None \<Rightarrow> b | Some s \<Rightarrow> if s \<noteq> [] then s else b)"

text \<open>
  Each asynchronous method takes the outcome of its one \<open>fetch\<close> as an argument and
  returns the environment it leaves together with its result: \<open>Inl\<close> for a rejected
  promise, \<open>Inr\<close> for the value it resolves to. A \<open>try ... catch\<close> of the source is the
  branch that turns a rejection into a value. A method runs from its call to its end at
  one environment: nothing else touches the store while its \<open>fetch\<close> is in flight.
\<close>

definition login ::
  "JSON \<Rightarrow> login_credentials \<Rightarrow> auth_response fetched \<Rightarrow> env \<Rightarrow> env \<times> (error + auth_response)" where
  "login J credentials fetched e =
     (case fetched of
        Rejected err \<Rightarrow> (e, Inl err)
      | Resolved response \<Rightarrow>
          if \<not> ok response then
            (case json response of
               Inl err \<Rightarrow> (e, Inl err)
             | Inr error \<Rightarrow> (e, Inl (Error (or_default (detail error) ''Login failed''))))
          else
            (case json response of
               Inl err \<Rightarrow> (e, Inl err)
             | Inr b \<Rightarrow>
                 (let authResponse = payload b
                  in (setUser J (resp_user authResponse) (setToken (access_token authResponse) e),
                      Inr authResponse))))"


definition getCurrentUser ::
  "JSON \<Rightarrow> user fetched \<Rightarrow> env \<Rightarrow> env \<times> (error + user option)" where
  "getCurrentUser J fetched e =
     (let token = getToken e
      in if \<not> truthy token then (e, Inr None)
         else
           (case fetched of
              Rejected err \<Rightarrow> (e, Inr None)
            | Resolved response \<Rightarrow>
                if \<not> ok response then
                  (if status response = 401 then (removeToken e, Inr None) else (e, Inr None))
                else
                  (case json response of
                     Inl err \<Rightarrow> (e, Inr None)
                   | Inr b \<Rightarrow> (setUser J (payload b) e, Inr (Some (payload b))))))"

definition verifyToken :: "'a fetched \<Rightarrow> env \<Rightarrow> env \<times> (error + bool)" where
  "verifyToken fetched e =
     (let token = getToken e
      in if \<not> truthy token then (e, Inr False)
         else
           (case fetched of
              Rejected err \<Rightarrow> (e, Inr False)
            | Resolved response \<Rightarrow>
                if \<not> ok response then
                  (if status response = 401 then (removeToken e, Inr False) else (e, Inr False))
                else (e, Inr True)))"

section \<open>Session Controller: AuthProvider\<close>

text \<open>
  The React state of the provider (\<open>user\<close>, \<open>isLoading\<close>) and the context value it
  renders, which adds \<open>isAuthenticated: !!user && !!AuthService.getToken()\<close>.
\<close>

record auth_state =
  user :: "user option"
  isLoading :: bool

record auth_context = auth_state +
  isAuthenticated :: bool

definition initial_state :: auth_state where
  "initial_state = \<lparr>user = None, isLoading = True\<rparr>"

definition AuthProvider_value :: "auth_state \<Rightarrow> env \<Rightarrow> auth_context" where
  "AuthProvider_value s e =
     \<lparr>user = user s, isLoading = isLoading s,
      isAuthenticated = (user s \<noteq> None \<and> truthy (getToken e))\<rparr>"

fun AuthProvider_login ::
  "JSON \<Rightarrow> string \<Rightarrow> string \<Rightarrow> auth_response fetched \<Rightarrow> auth_state \<times> env
     \<Rightarrow> (auth_state \<times> env) \<times> (error + unit)" where
  "AuthProvider_login J em pw fetched (s, e) =
     (case login J \<lparr>cred_email = em, password = pw\<rparr> fetched e of
        (e', Inr authResponse) \<Rightarrow> ((s\<lparr>user := Some (resp_user authResponse)\<rparr>, e'), Inr ())
      | (e', Inl err) \<Rightarrow> ((s, e'), Inl err))"


text \<open>
  \<open>initAuth\<close> runs in two parts: \<open>initAuth_start\<close> is the code up to the first
  \<open>await\<close> (or to the end, when no call is made), \<open>initAuth_resume\<close> the code after the
  awaited call has settled. Between the two the provider shows the state that
  \<open>initAuth_start\<close> left. The \<open>finally\<close> block is the \<open>isLoading := False\<close> of every
  finished path.
\<close>

datatype pending = AwaitVerify user | AwaitCurrentUser

datatype init_step = Done "auth_state \<times> env" | Awaiting pending "auth_state \<times> env"

fun initAuth_start :: "JSON \<Rightarrow> auth_state \<times> env \<Rightarrow> init_step" where
  "initAuth_start J (s, e) =
     (let s1 = s\<lparr>isLoading := True\<rparr>;
          token = getToken e
      in if \<not> truthy token then Done (s1\<lparr>user := None, isLoading := False\<rparr>, e)
         else
           (case getUser J e of
              Inl err \<Rightarrow> Done (s1\<lparr>user := None, isLoading := False\<rparr>, removeToken e)
            | Inr currentUser \<Rightarrow>
                (case currentUser of
                   Some u \<Rightarrow> Awaiting (AwaitVerify u) (s1, e)
                 | None \<Rightarrow> Awaiting AwaitCurrentUser (s1, e))))"

fun initAuth_resume ::
  "JSON \<Rightarrow> pending \<Rightarrow> user fetched \<Rightarrow> auth_state \<times> env \<Rightarrow> auth_state \<times> env" where
  "initAuth_resume J (AwaitVerify currentUser) fetched (s, e) =
     (case verifyToken fetched e of
        (e', Inr isValid) \<Rightarrow>
          if isValid then (s\<lparr>user := Some currentUser, isLoading := False\<rparr>, e')
          else (s\<lparr>user := None, isLoading := False\<rparr>, removeToken e')
      | (e', Inl err) \<Rightarrow> (s\<lparr>user := None, isLoading := False\<rparr>, removeToken e'))"
| "initAuth_resume J AwaitCurrentUser fetched (s, e) =
     (case getCurrentUser J fetched e of
        (e', Inr currentUser) \<Rightarrow> (s\<lparr>user := currentUser, isLoading := False\<rparr>, e')
      | (e', Inl err) \<Rightarrow> (s\<lparr>user := None, isLoading := False\<rparr>, removeToken e'))"

definition initAuth :: "JSON \<Rightarrow> user fetched \<Rightarrow> auth_state \<times> env \<Rightarrow> auth_state \<times> env" where
  "initAuth J fetched se =
     (case initAuth_start J se of
        Done r \<Rightarrow> r
      | Awaiting p se' \<Rightarrow> initAuth_resume J p fetched se')"

definition handleAuthExpired :: "auth_state \<Rightarrow> auth_state" where
  "handleAuthExpired s = s\<lparr>user := None\<rparr>"

text \<open>
  The listener the provider registers on \<open>window\<close> while mounted, as a function of the
  event name; it sees the environment of the moment the event is dispatched.
\<close>

fun AuthProvider_listener :: "string \<Rightarrow> auth_state \<times> env \<Rightarrow> auth_state \<times> env" where
  "AuthProvider_listener ev (s, e) =
     (if ev = ''auth-expired'' then (handleAuthExpired s, e) else (s, e))"

text \<open>
  The second effect arms the interval only with a user and a token; \<open>validation_tick\<close>
  is the interval's callback, run every ten minutes.
\<close>

definition interval_armed :: "auth_state \<Rightarrow> env \<Rightarrow> bool" where
  "interval_armed s e \<longleftrightarrow> \<not> (user s = None \<or> \<not> truthy (getToken e))"

fun validation_tick :: "'a fetched \<Rightarrow> auth_state \<times> env \<Rightarrow> auth_state \<times> env" where
  "validation_tick fetched (s, e) =
     (let currentToken = getToken e
      in if truthy currentToken then
           (case verifyToken fetched e of
              (e', Inr isValid) \<Rightarrow> if \<not> isValid then (s\<lparr>user := None\<rparr>, e') else (s, e')
            | (e', Inl err) \<Rightarrow> (s, e'))
         else (s, e))"

text \<open>
  The three session states of the specification, read off the context value in the
  order in which the guards test it: loading first, then \<open>isAuthenticated\<close>.
\<close>

datatype session = Initializing | Authenticated user | Unauthenticated

definition session_state :: "auth_context \<Rightarrow> session" where
  "session_state c =
     (if isLoading c then Initializing
      else if isAuthenticated c then
        (case user c of Some u \<Rightarrow> Authenticated u | None \<Rightarrow> Unauthenticated)
      else Unauthenticated)"

section \<open>Access Guard: ProtectedRoute\<close>

text \<open>
  \<open>ProtectedRoute_effect\<close> is the body of the effect: the list of \<open>router.push\<close>
  calls of one run. \<open>ProtectedRoute_render\<close> is what the component returns.
\<close>

datatype view = Fallback | Nothing | Children

definition ProtectedRoute_effect :: "string list \<Rightarrow> auth_context \<Rightarrow> string list" where
  "ProtectedRoute_effect requiredRole c =
     (if isLoading c then []
      else if \<not> isAuthenticated c then [''/login'']
      else if length requiredRole > 0
              \<and> (case user c of None \<Rightarrow> False | Some u \<Rightarrow> \<not> (role u \<in> set requiredRole))
           then [''/unauthorized'']
      else [])"

definition ProtectedRoute_render :: "auth_context \<Rightarrow> view" where
  "ProtectedRoute_render c =
     (if isLoading c then Fallback
      else if \<not> isAuthenticated c then Nothing
      else Children)"

section \<open>The shared API client (lib/api.ts)\<close>

text \<open>
  \<open>ApiResponse\<close>; its \<open>error\<close> is one of three template strings, kept apart here:
  a message taken from the body, \<open>HTTP <status>\<close>, and \<open>Failed to parse response\<close>.
\<close>

datatype api_error = Message string | Http nat | ParseFailed error

record 'a api_response =
  api_data :: "'a option"
  api_error :: "api_error option"
  api_status :: nat

text \<open>
  \<open>handleResponse\<close>; \<open>dispatchEvent\<close> stands for \<open>window.dispatchEvent\<close>, which runs
  the registered listeners before it returns. The first component of the state is
  whatever the listeners own.
\<close>

definition or_else :: "string option \<Rightarrow> string option \<Rightarrow> string option" where
  "or_else a b = (if truthy a then a else b)"

fun handleResponse ::
  "(string \<Rightarrow> 's \<times> env \<Rightarrow> 's \<times> env) \<Rightarrow> 'a response \<Rightarrow> 's \<times> env
     \<Rightarrow> ('s \<times> env) \<times> 'a api_response" where
  "handleResponse dispatchEvent response (s, e) =
     (let st = status response;
          se1 = (if st = 401 then
                   (case e of
                      None \<Rightarrow> (s, e)
                    | Some w \<Rightarrow>
                        dispatchEvent ''auth-expired''
                          (s, Some (set_cookie ''rampforge_token'' [] [Path ''/'', Expires epoch]
                                     (removeItem ''rampforge_user''
                                       (removeItem ''rampforge_token'' w)))))
                 else (s, e))
      in (case json response of
            Inr d \<Rightarrow>
              if \<not> ok response then
                (se1, \<lparr>api_data = None,
                       api_error = Some (case or_else (detail d) (message d) of
                                           Some m \<Rightarrow> if m \<noteq> [] then Message m else Http st
                                         | None \<Rightarrow> Http st),
                       api_status = st\<rparr>)
              else (se1, \<lparr>api_data = Some (payload d), api_error = None, api_status = st\<rparr>)
          | Inl err \<Rightarrow>
              (se1, \<lparr>api_data = None, api_error = Some (ParseFailed err), api_status = st\<rparr>)))"

section \<open>Concrete inputs\<close>

definition example_user :: user where
  "example_user =
     \<lparr>user_id = ''u1'', email = ''a@b.com'', name = ''Ada'', role = ''developer'',
      is_active = True, skills = [], learning_progress = [],
      created_at = ''2024-01-01T00:00:00Z'', last_active = None\<rparr>"

definition example_json :: JSON where
  "example_json =
     \<lparr>stringify = user_id,
      parse = (\<lambda>s. if s = ''u1'' then Inr (Some example_user) else Inl SyntaxError)\<rparr>"

text \<open>
  A browser on a secure origin, as far as the examples need it: it stores, under the
  name before the first \<open>=\<close>, the value up to the first semicolon.
\<close>

definition example_setter :: "string \<Rightarrow> cookie_action" where
  "example_setter str =
     Store (takeWhile (\<lambda>c. c \<noteq> CHR ''='') str)
           (takeWhile (\<lambda>c. c \<noteq> CHR '';'') (drop 1 (dropWhile (\<lambda>c. c \<noteq> CHR ''='') str)))"

definition warm_window :: window where
  "warm_window =
     \<lparr>localStorage = [''rampforge_token'' \<mapsto> ''T1'', ''rampforge_user'' \<mapsto> ''u1''],
      cookie = [''rampforge_token'' \<mapsto> ''T1''],
      cookie_setter = example_setter\<rparr>"

definition empty_window :: window where
  "empty_window =
     \<lparr>localStorage = Map.empty, cookie = Map.empty, cookie_setter = example_setter\<rparr>"

definition empty_token_response :: "auth_response response" where
  "empty_token_response =
     \<lparr>status = 200,
      json = Inr \<lparr>detail = None, message = None,
                  payload = \<lparr>access_token = [], token_type = ''bearer'', expires_in = 3600,
                             resp_user = example_user\<rparr>\<rparr>\<rparr>"

definition example_login_response :: "auth_response response" where
  "example_login_response =
     \<lparr>status = 200,
      json = Inr \<lparr>detail = None, message = None,
                  payload = \<lparr>access_token = ''T1'', token_type = ''bearer'', expires_in = 3600,
                             resp_user = example_user\<rparr>\<rparr>\<rparr>"

section \<open>Token Store properties\<close>

text \<open>The two strings that the Token Store assigns to \<open>document.cookie\<close>.\<close>

lemma setToken_cookie_string:
  "cookie_string TOKEN_KEY t [Path ''/'', Secure, SameSite ''strict'']
     = ''rampforge_token='' @ t @ ''; path=/; secure; samesite=strict''"
  by (simp add: cookie_string_def TOKEN_KEY_def)

lemma removeToken_cookie_string:
  "cookie_string TOKEN_KEY [] [Path ''/'', Expires epoch]
     = ''rampforge_token=; path=/; expires=Thu, 01 Jan 1970 00:00:00 GMT''"
  by (simp add: cookie_string_def TOKEN_KEY_def epoch_def)

lemma keys_distinct: "TOKEN_KEY \<noteq> USER_KEY"
  by (simp add: TOKEN_KEY_def USER_KEY_def)

lemma getToken_removeToken: "getToken (removeToken e) = None"
  by (cases e) (simp_all add: getToken_def removeToken_def set_cookie_def removeItem_def keys_distinct)

lemma getUser_removeToken: "getUser J (removeToken e) = Inr None"
  by (cases e) (simp_all add: getUser_def removeToken_def set_cookie_def removeItem_def truthy_def)

text \<open>
  C8. In a browser context: \<open>getToken\<close> after \<open>setToken t\<close> returns \<open>t\<close>; after
  \<open>removeToken\<close>, \<open>getToken\<close> and \<open>getUser\<close> return null; \<open>removeToken\<close> is idempotent,
  and on a store that holds no token, no user snapshot and no mirrored cookie it changes
  nothing. \<open>removeToken\<close> has no failing branch: it returns an environment in every case.
\<close>

theorem token_store_roundtrip:
  "getToken (setToken t (Some w)) = Some t
   \<and> getToken (removeToken (Some w)) = None
   \<and> getUser J (removeToken (Some w)) = Inr None
   \<and> removeToken (removeToken (Some w)) = removeToken (Some w)
   \<and> (localStorage w TOKEN_KEY = None \<and> localStorage w USER_KEY = None
        \<and> cookie w TOKEN_KEY = None \<longrightarrow> removeToken (Some w) = Some w)"
proof -
  have set_get: "getToken (setToken t (Some w)) = Some t"
    by (simp add: getToken_def setToken_def set_cookie_def setItem_def
          split: cookie_action.splits)
  have idem: "removeToken (removeToken (Some w)) = removeToken (Some w)"
    by (simp add: removeToken_def set_cookie_def removeItem_def)
  have noop: "removeToken (Some w) = Some w"
    if "localStorage w TOKEN_KEY = None" "localStorage w USER_KEY = None"
       "cookie w TOKEN_KEY = None"
  proof -
    from that have "(localStorage w)(TOKEN_KEY := None, USER_KEY := None) = localStorage w"
      and "(cookie w)(TOKEN_KEY := None) = cookie w"
      by (auto simp: fun_eq_iff)
    then show ?thesis
      by (simp add: removeToken_def set_cookie_def removeItem_def)
  qed
  from set_get idem noop show ?thesis
    by (simp add: getToken_removeToken getUser_removeToken)
qed

theorem token_store_roundtrip_witness:
  "localStorage empty_window TOKEN_KEY = None \<and> localStorage empty_window USER_KEY = None
   \<and> cookie empty_window TOKEN_KEY = None
   \<and> removeToken (Some empty_window) = Some empty_window
   \<and> getToken (setToken ''T1'' (Some empty_window)) = Some ''T1''"
  using token_store_roundtrip [of "''T1''" empty_window]
  by (simp add: empty_window_def)

text \<open>
  C9. Without a window object every Token Store operation leaves the environment as it
  is, and the getters return null; none has a failing branch.
\<close>

theorem token_store_no_window:
  "getToken None = None
   \<and> setToken t None = None
   \<and> removeToken None = None
   \<and> getUser J None = Inr None
   \<and> setUser J u None = None"
  by (simp add: getToken_def setToken_def removeToken_def getUser_def setUser_def)

section \<open>Outcomes of the remote calls\<close>

lemma ok_401: "status r = 401 \<Longrightarrow> \<not> ok r"
  by (simp add: ok_def)

lemma truthy_warm: "truthy (getToken (Some warm_window))"
  by (simp add: truthy_def getToken_def warm_window_def TOKEN_KEY_def)

lemma getUser_warm: "getUser example_json (Some warm_window) = Inr (Some example_user)"
  by (simp add: getUser_def warm_window_def USER_KEY_def example_json_def)

lemma removeToken_changes_token: "truthy (getToken e) \<Longrightarrow> getToken (removeToken e) \<noteq> getToken e"
  by (auto simp: getToken_removeToken truthy_def)

lemma verifyToken_Rejected: "verifyToken (Rejected err) e = (e, Inr False)"
  by (simp add: verifyToken_def)

lemma verifyToken_401:
  "truthy (getToken e) \<Longrightarrow> status r = 401 \<Longrightarrow>
     verifyToken (Resolved r) e = (removeToken e, Inr False)"
  by (simp add: verifyToken_def ok_401)

lemma verifyToken_ok:
  "truthy (getToken e) \<Longrightarrow> ok r \<Longrightarrow> verifyToken (Resolved r) e = (e, Inr True)"
  by (simp add: verifyToken_def)

lemma verifyToken_not_ok:
  "truthy (getToken e) \<Longrightarrow> \<not> ok r \<Longrightarrow> status r \<noteq> 401 \<Longrightarrow>
     verifyToken (Resolved r) e = (e, Inr False)"
  by (simp add: verifyToken_def)

lemma verifyToken_total: "\<exists>b. snd (verifyToken f e) = Inr b"
  by (cases f) (auto simp: verifyToken_def Let_def)

lemma getCurrentUser_Rejected: "getCurrentUser J (Rejected err) e = (e, Inr None)"
  by (simp add: getCurrentUser_def)

lemma getCurrentUser_401:
  "truthy (getToken e) \<Longrightarrow> status r = 401 \<Longrightarrow>
     getCurrentUser J (Resolved r) e = (removeToken e, Inr None)"
  by (simp add: getCurrentUser_def ok_401)

lemma getCurrentUser_total: "\<exists>u. snd (getCurrentUser J f e) = Inr u"
  by (cases f) (auto simp: getCurrentUser_def Let_def split: sum.splits)

text \<open>
  C3, as stated, fails: with a token stored and the server unreachable (\<open>fetch\<close>
  rejects), \<open>verifyToken\<close> resolves to \<open>false\<close>, the very value it resolves to on a 401.
\<close>

theorem verifyToken_network_failure_counterexample:
  "verifyToken (Rejected TypeError :: unit fetched) (Some warm_window)
     = (Some warm_window, Inr False)
   \<and> snd (verifyToken (Resolved \<lparr>status = 401, json = Inl SyntaxError\<rparr> :: unit fetched)
           (Some warm_window)) = Inr False"
  by (simp add: verifyToken_Rejected verifyToken_401 truthy_warm)

text \<open>
  C3, amended. \<open>verifyToken\<close> never throws. It resolves to \<open>false\<close> when the token is
  rejected with a 401 and also when the network fails; the two differ only in the Token
  Store, which the 401 clears and the network failure leaves as it was.
\<close>

theorem verifyToken_outcomes:
  "(\<exists>b. snd (verifyToken (f :: 'a fetched) e) = Inr b)
   \<and> verifyToken (Rejected err :: 'a fetched) e = (e, Inr False)
   \<and> (truthy (getToken e) \<and> status r = 401 \<longrightarrow>
        verifyToken (Resolved r) e = (removeToken e, Inr False)
        \<and> getToken (fst (verifyToken (Resolved r :: 'a fetched) e))
            \<noteq> getToken (fst (verifyToken (Rejected err :: 'a fetched) e)))"
  using verifyToken_total [of f e] removeToken_changes_token [of e]
  by (simp add: verifyToken_Rejected verifyToken_401)

theorem verifyToken_outcomes_witness:
  "truthy (getToken (Some warm_window))
   \<and> status (\<lparr>status = 401, json = Inl SyntaxError\<rparr> :: unit response) = 401
   \<and> verifyToken (Resolved \<lparr>status = 401, json = Inl SyntaxError\<rparr> :: unit fetched)
        (Some warm_window) = (removeToken (Some warm_window), Inr False)"
  using verifyToken_outcomes [of "Rejected TypeError :: unit fetched" "Some warm_window" TypeError
      "\<lparr>status = 401, json = Inl SyntaxError\<rparr> :: unit response"]
  by (simp add: truthy_warm)

text \<open>
  C4, as stated, fails: \<open>getCurrentUser\<close> does not fail at all. With a token stored it
  resolves to \<open>null\<close> when the server is unreachable and to \<open>null\<close> on a 401.
\<close>

theorem getCurrentUser_null_counterexample:
  "getCurrentUser example_json (Rejected TypeError) (Some warm_window)
     = (Some warm_window, Inr None)
   \<and> snd (getCurrentUser example_json (Resolved \<lparr>status = 401, json = Inl SyntaxError\<rparr>)
           (Some warm_window)) = Inr None"
  by (simp add: getCurrentUser_Rejected getCurrentUser_401 truthy_warm)

text \<open>
  C4, amended. \<open>getCurrentUser\<close> never throws. It resolves to \<open>null\<close> when the token is
  rejected with a 401 and when the network fails; its result does not tell the two apart,
  the Token Store does: the 401 clears it, the network failure leaves it as it was.
\<close>

theorem getCurrentUser_outcomes:
  "(\<exists>u. snd (getCurrentUser J f e) = Inr u)
   \<and> getCurrentUser J (Rejected err) e = (e, Inr None)
   \<and> (truthy (getToken e) \<and> status r = 401 \<longrightarrow>
        getCurrentUser J (Resolved r) e = (removeToken e, Inr None)
        \<and> getToken (fst (getCurrentUser J (Resolved r) e))
            \<noteq> getToken (fst (getCurrentUser J (Rejected err) e)))"
  using getCurrentUser_total [of J f e] removeToken_changes_token [of e]
  by (simp add: getCurrentUser_Rejected getCurrentUser_401)

theorem getCurrentUser_outcomes_witness:
  "truthy (getToken (Some warm_window))
   \<and> status (\<lparr>status = 401, json = Inl SyntaxError\<rparr> :: user response) = 401
   \<and> getCurrentUser example_json (Resolved \<lparr>status = 401, json = Inl SyntaxError\<rparr>)
        (Some warm_window) = (removeToken (Some warm_window), Inr None)"
  using getCurrentUser_outcomes [of example_json "Rejected TypeError" "Some warm_window" TypeError
      "\<lparr>status = 401, json = Inl SyntaxError\<rparr>"]
  by (simp add: truthy_warm)

section \<open>Session Controller properties\<close>

lemma session_Authenticated_iff:
  "session_state (AuthProvider_value s e) = Authenticated u
     \<longleftrightarrow> \<not> isLoading s \<and> user s = Some u \<and> truthy (getToken e)"
  by (auto simp: session_state_def AuthProvider_value_def split: option.splits)

lemma session_no_user:
  "\<not> isLoading s \<Longrightarrow>
     session_state (AuthProvider_value (s\<lparr>user := None\<rparr>) e) = Unauthenticated"
  by (simp add: session_state_def AuthProvider_value_def)

text \<open>
  C2, as stated, fails: an authenticated session whose periodic check meets an
  unreachable server keeps its Token Store but loses its user, and is Unauthenticated.
\<close>

theorem validation_tick_network_failure_counterexample:
  "session_state (AuthProvider_value \<lparr>user = Some example_user, isLoading = False\<rparr>
      (Some warm_window)) = Authenticated example_user
   \<and> validation_tick (Rejected TypeError :: unit fetched)
        (\<lparr>user = Some example_user, isLoading = False\<rparr>, Some warm_window)
       = (\<lparr>user = None, isLoading = False\<rparr>, Some warm_window)
   \<and> session_state (AuthProvider_value \<lparr>user = None, isLoading = False\<rparr> (Some warm_window))
       = Unauthenticated"
  by (simp add: session_Authenticated_iff truthy_warm verifyToken_Rejected
        session_state_def AuthProvider_value_def)

text \<open>
  C2, amended. While Authenticated the interval is armed, and on a periodic tick: a
  network failure of \<open>verifyToken\<close> leaves the Token Store unchanged and sets the user to
  null, so the state becomes Unauthenticated; a 401 sets the user to null and clears the
  Token Store; any other failure response sets the user to null and leaves the Token
  Store; a success response changes nothing; and the Token Store changes on no outcome
  but a 401.
\<close>

theorem validation_tick_outcomes:
  assumes "session_state (AuthProvider_value s e) = Authenticated u"
  shows "interval_armed s e
   \<and> validation_tick (Rejected err :: 'a fetched) (s, e) = (s\<lparr>user := None\<rparr>, e)
   \<and> session_state (AuthProvider_value (s\<lparr>user := None\<rparr>) e) = Unauthenticated
   \<and> (status r = 401 \<longrightarrow>
        validation_tick (Resolved r :: 'a fetched) (s, e) = (s\<lparr>user := None\<rparr>, removeToken e)
        \<and> session_state (AuthProvider_value (s\<lparr>user := None\<rparr>) (removeToken e))
            = Unauthenticated
        \<and> getToken (removeToken e) = None \<and> getUser J (removeToken e) = Inr None)
   \<and> (\<not> ok r \<and> status r \<noteq> 401 \<longrightarrow>
        validation_tick (Resolved r :: 'a fetched) (s, e) = (s\<lparr>user := None\<rparr>, e))
   \<and> (ok r \<longrightarrow> validation_tick (Resolved r :: 'a fetched) (s, e) = (s, e))
   \<and> (snd (validation_tick (f :: 'a fetched) (s, e)) \<noteq> e \<longrightarrow>
        (\<exists>r'. f = Resolved r' \<and> status r' = 401))"
proof -
  from assms have nl: "\<not> isLoading s" and tk: "truthy (getToken e)" and us: "user s = Some u"
    by (simp_all add: session_Authenticated_iff)
  have armed: "interval_armed s e"
    using tk us by (simp add: interval_armed_def)
  have rej: "validation_tick (Rejected err :: 'a fetched) (s, e) = (s\<lparr>user := None\<rparr>, e)"
    using tk by (simp add: verifyToken_Rejected)
  have unauth: "session_state (AuthProvider_value (s\<lparr>user := None\<rparr>) e') = Unauthenticated"
    for e'
    using nl by (rule session_no_user)
  have r401: "validation_tick (Resolved r :: 'a fetched) (s, e)
                = (s\<lparr>user := None\<rparr>, removeToken e)"
    if "status r = 401"
    using tk that by (simp add: verifyToken_401)
  have rnok: "validation_tick (Resolved r :: 'a fetched) (s, e) = (s\<lparr>user := None\<rparr>, e)"
    if "\<not> ok r" "status r \<noteq> 401"
    using tk that by (simp add: verifyToken_not_ok)
  have rok: "validation_tick (Resolved r :: 'a fetched) (s, e) = (s, e)" if "ok r"
    using tk that by (simp add: verifyToken_ok)
  have only: "\<exists>r'. f = Resolved r' \<and> status r' = 401"
    if "snd (validation_tick f (s, e)) \<noteq> e"
    using that tk by (cases f) (auto simp: verifyToken_def Let_def split: if_splits)
  from armed rej unauth r401 rnok rok only show ?thesis
    by (simp add: getToken_removeToken getUser_removeToken)
qed

theorem validation_tick_outcomes_witness:
  "session_state (AuthProvider_value \<lparr>user = Some example_user, isLoading = False\<rparr>
      (Some warm_window)) = Authenticated example_user
   \<and> status (\<lparr>status = 401, json = Inl SyntaxError\<rparr> :: unit response) = 401
   \<and> validation_tick (Resolved \<lparr>status = 401, json = Inl SyntaxError\<rparr> :: unit fetched)
        (\<lparr>user = Some example_user, isLoading = False\<rparr>, Some warm_window)
       = (\<lparr>user = None, isLoading = False\<rparr>, removeToken (Some warm_window))"
proof -
  have a: "session_state (AuthProvider_value \<lparr>user = Some example_user, isLoading = False\<rparr>
      (Some warm_window)) = Authenticated example_user"
    by (simp add: session_Authenticated_iff truthy_warm)
  show ?thesis
    using a validation_tick_outcomes [OF a, where err = TypeError
        and r = "\<lparr>status = 401, json = Inl SyntaxError\<rparr> :: unit response"
        and J = example_json and f = "Rejected TypeError"]
    by simp
qed

text \<open>
  C1, as stated, fails: with a token and a cached user stored, the code that runs at
  mount before any response stops at \<open>await AuthService.verifyToken()\<close> with the user
  still null and \<open>isLoading\<close> true, so the provider shows Initializing.
\<close>

theorem initAuth_warm_start_counterexample:
  "truthy (getToken (Some warm_window))
   \<and> getUser example_json (Some warm_window) = Inr (Some example_user)
   \<and> initAuth_start example_json (initial_state, Some warm_window)
       = Awaiting (AwaitVerify example_user) (\<lparr>user = None, isLoading = True\<rparr>, Some warm_window)
   \<and> session_state (AuthProvider_value \<lparr>user = None, isLoading = True\<rparr> (Some warm_window))
       = Initializing"
  by (simp add: truthy_warm getUser_warm initial_state_def session_state_def
        AuthProvider_value_def)

lemma session_failed_init:
  "session_state (AuthProvider_value (s\<lparr>user := None, isLoading := False\<rparr>) e) = Unauthenticated"
  by (simp add: session_state_def AuthProvider_value_def)

lemma initAuth_resume_verify_session:
  assumes "truthy (getToken e)"
  shows "(case initAuth_resume J (AwaitVerify u) f (initial_state, e) of
           (s', e') \<Rightarrow>
             session_state (AuthProvider_value s' e')
               = (case f of
                    Rejected err \<Rightarrow> Unauthenticated
                  | Resolved r \<Rightarrow> if ok r then Authenticated u else Unauthenticated))"
proof (cases f)
  case (Rejected err)
  then show ?thesis
    by (simp add: verifyToken_Rejected session_failed_init)
next
  case (Resolved r)
  show ?thesis
  proof (cases "ok r")
    case True
    with Resolved assms show ?thesis
      by (simp add: verifyToken_ok initial_state_def session_state_def AuthProvider_value_def)
  next
    case False
    with Resolved assms show ?thesis
      by (simp add: verifyToken_def session_failed_init)
  qed
qed

text \<open>
  C1, amended. For every mount in which the Token Store holds a non-empty token and a
  cached user, the controller stays Initializing (user null, loading) while the
  \<open>verifyToken\<close> call is pending. It shows Authenticated(cachedUser) only once that call
  has resolved to true, with the Token Store untouched on that path; after every other
  outcome of the call (a failure response, an unreachable server) it shows
  Unauthenticated.
\<close>

theorem initAuth_warm_start:
  assumes "truthy (getToken e)" and "getUser J e = Inr (Some u)"
  shows "initAuth_start J (initial_state, e) = Awaiting (AwaitVerify u) (initial_state, e)
   \<and> session_state (AuthProvider_value initial_state e) = Initializing
   \<and> (ok r \<longrightarrow>
        initAuth_resume J (AwaitVerify u) (Resolved r) (initial_state, e)
          = (\<lparr>user = Some u, isLoading = False\<rparr>, e)
        \<and> initAuth J (Resolved r) (initial_state, e) = (\<lparr>user = Some u, isLoading = False\<rparr>, e)
        \<and> session_state (AuthProvider_value \<lparr>user = Some u, isLoading = False\<rparr> e)
            = Authenticated u)
   \<and> (case initAuth_resume J (AwaitVerify u) f (initial_state, e) of
         (s', e') \<Rightarrow>
           session_state (AuthProvider_value s' e')
             = (case f of
                  Rejected err \<Rightarrow> Unauthenticated
                | Resolved r' \<Rightarrow> if ok r' then Authenticated u else Unauthenticated))
   \<and> (case initAuth J f (initial_state, e) of
         (s', e') \<Rightarrow>
           session_state (AuthProvider_value s' e')
             = (case f of
                  Rejected err \<Rightarrow> Unauthenticated
                | Resolved r' \<Rightarrow> if ok r' then Authenticated u else Unauthenticated))"
proof -
  have start: "initAuth_start J (initial_state, e) = Awaiting (AwaitVerify u) (initial_state, e)"
    using assms by (simp add: initial_state_def)
  have init: "session_state (AuthProvider_value initial_state e) = Initializing"
    by (simp add: initial_state_def session_state_def AuthProvider_value_def)
  have good: "ok r \<longrightarrow>
        initAuth_resume J (AwaitVerify u) (Resolved r) (initial_state, e)
          = (\<lparr>user = Some u, isLoading = False\<rparr>, e)
        \<and> initAuth J (Resolved r) (initial_state, e) = (\<lparr>user = Some u, isLoading = False\<rparr>, e)
        \<and> session_state (AuthProvider_value \<lparr>user = Some u, isLoading = False\<rparr> e)
            = Authenticated u"
    using assms
    by (simp add: initAuth_def initial_state_def session_state_def AuthProvider_value_def
          verifyToken_ok)
  have every: "(case initAuth_resume J (AwaitVerify u) f (initial_state, e) of
         (s', e') \<Rightarrow>
           session_state (AuthProvider_value s' e')
             = (case f of
                  Rejected err \<Rightarrow> Unauthenticated
                | Resolved r' \<Rightarrow> if ok r' then Authenticated u else Unauthenticated))"
    using assms(1) by (rule initAuth_resume_verify_session)
  have whole: "initAuth J f (initial_state, e)
                 = initAuth_resume J (AwaitVerify u) f (initial_state, e)"
    by (simp only: initAuth_def start init_step.case)
  show ?thesis
    unfolding whole
    by (rule conjI [OF start conjI [OF init conjI [OF good conjI [OF every every]]]])
qed

theorem initAuth_warm_start_witness:
  "truthy (getToken (Some warm_window))
   \<and> getUser example_json (Some warm_window) = Inr (Some example_user)
   \<and> ok (\<lparr>status = 200, json = Inl SyntaxError\<rparr> :: user response)
   \<and> initAuth_resume example_json (AwaitVerify example_user)
        (Resolved \<lparr>status = 200, json = Inl SyntaxError\<rparr>) (initial_state, Some warm_window)
       = (\<lparr>user = Some example_user, isLoading = False\<rparr>, Some warm_window)"
  using initAuth_warm_start [OF truthy_warm getUser_warm,
      where r = "\<lparr>status = 200, json = Inl SyntaxError\<rparr>"
        and f = "Resolved \<lparr>status = 200, json = Inl SyntaxError\<rparr>"]
  by (simp add: truthy_warm getUser_warm ok_def)







lemma login_failure_env: "snd (login J c f e) = Inl err \<Longrightarrow> login J c f e = (e, Inl err)"
  by (cases f) (auto simp: login_def Let_def split: sum.splits if_splits)

lemma login_not_ok: "\<not> ok r \<Longrightarrow> \<exists>err. login J c (Resolved r) e = (e, Inl err)"
  by (auto simp: login_def split: sum.splits)

lemma login_ok:
  "ok r \<Longrightarrow> json r = Inr b \<Longrightarrow>
     login J c (Resolved r) e
       = (setUser J (resp_user (payload b)) (setToken (access_token (payload b)) e),
          Inr (payload b))"
  by (simp add: login_def Let_def)

lemma store_after_login:
  "\<exists>w'. setUser J u (setToken t (Some w)) = Some w'
        \<and> localStorage w' = (localStorage w)(TOKEN_KEY \<mapsto> t, USER_KEY \<mapsto> stringify J u)
        \<and> cookie w' = cookie (set_cookie TOKEN_KEY t [Path ''/'', Secure, SameSite ''strict''] w)
        \<and> (cookie_setter w (''rampforge_token='' @ t @ ''; path=/; secure; samesite=strict'')
              = Store TOKEN_KEY t \<longrightarrow> cookie w' TOKEN_KEY = Some t)"
  by (simp add: setUser_def setToken_def setItem_def set_cookie_def setToken_cookie_string
        split: cookie_action.splits)

lemma login_success_store:
  assumes "ok r" and "json r = Inr b" and "e = Some w"
  shows "(case AuthProvider_login J em pw (Resolved r) (s, e) of
           ((s', e'), res) \<Rightarrow>
             res = Inr () \<and> user s' = Some (resp_user (payload b))
             \<and> isLoading s' = isLoading s
             \<and> getToken e' = Some (access_token (payload b))
             \<and> (\<exists>w'. e' = Some w'
                   \<and> localStorage w' TOKEN_KEY = Some (access_token (payload b))
                   \<and> localStorage w' USER_KEY = Some (stringify J (resp_user (payload b)))
                   \<and> cookie w'
                       = cookie (set_cookie TOKEN_KEY (access_token (payload b))
                                   [Path ''/'', Secure, SameSite ''strict''] w)
                   \<and> (cookie_setter w (''rampforge_token='' @ access_token (payload b)
                                          @ ''; path=/; secure; samesite=strict'')
                         = Store TOKEN_KEY (access_token (payload b))
                       \<longrightarrow> cookie w' TOKEN_KEY = Some (access_token (payload b)))))"
  using assms store_after_login [of J "resp_user (payload b)" "access_token (payload b)" w]
  by (auto simp: login_ok getToken_def keys_distinct)

text \<open>
  C6, as stated, fails in its last part. A success response whose token is the empty
  string is stored, and the controller, which reads an empty token as no token, is
  Unauthenticated; and a login that succeeds while the controller is still Initializing
  leaves it Initializing.
\<close>

theorem login_not_authenticated_counterexample:
  "ok empty_token_response
   \<and> AuthProvider_login example_json ''a@b.com'' ''pw'' (Resolved empty_token_response)
        (\<lparr>user = None, isLoading = False\<rparr>, Some empty_window)
       = ((\<lparr>user = Some example_user, isLoading = False\<rparr>,
           Some \<lparr>localStorage = [''rampforge_token'' \<mapsto> [], ''rampforge_user'' \<mapsto> ''u1''],
                 cookie = [''rampforge_token'' \<mapsto> []],
                 cookie_setter = example_setter\<rparr>), Inr ())
   \<and> session_state (AuthProvider_value \<lparr>user = Some example_user, isLoading = False\<rparr>
        (Some \<lparr>localStorage = [''rampforge_token'' \<mapsto> [], ''rampforge_user'' \<mapsto> ''u1''],
               cookie = [''rampforge_token'' \<mapsto> []],
               cookie_setter = example_setter\<rparr>)) = Unauthenticated
   \<and> ok example_login_response
   \<and> AuthProvider_login example_json ''a@b.com'' ''pw'' (Resolved example_login_response)
        (\<lparr>user = None, isLoading = True\<rparr>, Some empty_window)
       = ((\<lparr>user = Some example_user, isLoading = True\<rparr>,
           Some \<lparr>localStorage = [''rampforge_token'' \<mapsto> ''T1'', ''rampforge_user'' \<mapsto> ''u1''],
                 cookie = [''rampforge_token'' \<mapsto> ''T1''],
                 cookie_setter = example_setter\<rparr>), Inr ())
   \<and> session_state (AuthProvider_value \<lparr>user = Some example_user, isLoading = True\<rparr>
        (Some \<lparr>localStorage = [''rampforge_token'' \<mapsto> ''T1'', ''rampforge_user'' \<mapsto> ''u1''],
               cookie = [''rampforge_token'' \<mapsto> ''T1''],
               cookie_setter = example_setter\<rparr>)) = Initializing"
  by (simp add: ok_def empty_token_response_def example_login_response_def login_def
        setUser_def setToken_def setItem_def set_cookie_def cookie_string_def
        example_setter_def empty_window_def example_json_def example_user_def
        TOKEN_KEY_def USER_KEY_def session_state_def AuthProvider_value_def getToken_def
        truthy_def)

text \<open>
  C6, amended. Whenever the login call of AuthService fails with an error (the fetch
  rejects, the response is not ok, or its body cannot be read), \<open>login\<close> of the provider
  leaves the provider state and the environment exactly as they were and fails with the
  same error. On a success response in the browser the returned token and user are
  written to localStorage, the token is assigned to the mirrored cookie in the string
  \<open>rampforge_token=<token>; path=/; secure; samesite=strict\<close>, and the user of the
  provider is the returned user. The session state then is Authenticated(user) when the
  token is not empty and the controller is no longer Initializing; with an empty token
  it is Unauthenticated, and a controller still Initializing stays so.
\<close>

theorem login_outcomes:
  "(snd (login J \<lparr>cred_email = em, password = pw\<rparr> f e) = Inl err \<longrightarrow>
      AuthProvider_login J em pw f (s, e) = ((s, e), Inl err))
   \<and> AuthProvider_login J em pw (Rejected err) (s, e) = ((s, e), Inl err)
   \<and> (\<not> ok r \<longrightarrow> (\<exists>err'. AuthProvider_login J em pw (Resolved r) (s, e) = ((s, e), Inl err')))
   \<and> (ok r \<and> json r = Inr b \<and> e = Some w \<longrightarrow>
        (case AuthProvider_login J em pw (Resolved r) (s, e) of
           ((s', e'), res) \<Rightarrow>
             res = Inr () \<and> user s' = Some (resp_user (payload b))
             \<and> getToken e' = Some (access_token (payload b))
             \<and> (\<exists>w'. e' = Some w'
                   \<and> localStorage w' TOKEN_KEY = Some (access_token (payload b))
                   \<and> localStorage w' USER_KEY = Some (stringify J (resp_user (payload b)))
                   \<and> cookie w'
                       = cookie (set_cookie TOKEN_KEY (access_token (payload b))
                                   [Path ''/'', Secure, SameSite ''strict''] w)
                   \<and> (cookie_setter w (''rampforge_token='' @ access_token (payload b)
                                          @ ''; path=/; secure; samesite=strict'')
                         = Store TOKEN_KEY (access_token (payload b))
                       \<longrightarrow> cookie w' TOKEN_KEY = Some (access_token (payload b))))
             \<and> (stringify J (resp_user (payload b)) \<noteq> []
                  \<and> parse J (stringify J (resp_user (payload b))) = Inr (Some (resp_user (payload b)))
                  \<longrightarrow> getUser J e' = Inr (Some (resp_user (payload b))))
             \<and> isAuthenticated (AuthProvider_value s' e') = (access_token (payload b) \<noteq> [])
             \<and> session_state (AuthProvider_value s' e')
                 = (if isLoading s then Initializing
                    else if access_token (payload b) \<noteq> []
                    then Authenticated (resp_user (payload b))
                    else Unauthenticated)))"
proof -
  have fail: "snd (login J \<lparr>cred_email = em, password = pw\<rparr> f e) = Inl err \<longrightarrow>
      AuthProvider_login J em pw f (s, e) = ((s, e), Inl err)"
    using login_failure_env [of J "\<lparr>cred_email = em, password = pw\<rparr>" f e err] by auto
  have rej: "AuthProvider_login J em pw (Rejected err) (s, e) = ((s, e), Inl err)"
    by (simp add: login_def)
  have nok: "\<not> ok r \<longrightarrow>
      (\<exists>err'. AuthProvider_login J em pw (Resolved r) (s, e) = ((s, e), Inl err'))"
    using login_not_ok [of r J "\<lparr>cred_email = em, password = pw\<rparr>" e] by auto
  have succ: "ok r \<and> json r = Inr b \<and> e = Some w \<longrightarrow>
        (case AuthProvider_login J em pw (Resolved r) (s, e) of
           ((s', e'), res) \<Rightarrow>
             res = Inr () \<and> user s' = Some (resp_user (payload b))
             \<and> getToken e' = Some (access_token (payload b))
             \<and> (\<exists>w'. e' = Some w'
                   \<and> localStorage w' TOKEN_KEY = Some (access_token (payload b))
                   \<and> localStorage w' USER_KEY = Some (stringify J (resp_user (payload b)))
                   \<and> cookie w'
                       = cookie (set_cookie TOKEN_KEY (access_token (payload b))
                                   [Path ''/'', Secure, SameSite ''strict''] w)
                   \<and> (cookie_setter w (''rampforge_token='' @ access_token (payload b)
                                          @ ''; path=/; secure; samesite=strict'')
                         = Store TOKEN_KEY (access_token (payload b))
                       \<longrightarrow> cookie w' TOKEN_KEY = Some (access_token (payload b))))
             \<and> (stringify J (resp_user (payload b)) \<noteq> []
                  \<and> parse J (stringify J (resp_user (payload b))) = Inr (Some (resp_user (payload b)))
                  \<longrightarrow> getUser J e' = Inr (Some (resp_user (payload b))))
             \<and> isAuthenticated (AuthProvider_value s' e') = (access_token (payload b) \<noteq> [])
             \<and> session_state (AuthProvider_value s' e')
                 = (if isLoading s then Initializing
                    else if access_token (payload b) \<noteq> []
                    then Authenticated (resp_user (payload b))
                    else Unauthenticated))"
  proof (intro impI, elim conjE)
    assume a: "ok r" "json r = Inr b" "e = Some w"
    show "(case AuthProvider_login J em pw (Resolved r) (s, e) of
           ((s', e'), res) \<Rightarrow>
             res = Inr () \<and> user s' = Some (resp_user (payload b))
             \<and> getToken e' = Some (access_token (payload b))
             \<and> (\<exists>w'. e' = Some w'
                   \<and> localStorage w' TOKEN_KEY = Some (access_token (payload b))
                   \<and> localStorage w' USER_KEY = Some (stringify J (resp_user (payload b)))
                   \<and> cookie w'
                       = cookie (set_cookie TOKEN_KEY (access_token (payload b))
                                   [Path ''/'', Secure, SameSite ''strict''] w)
                   \<and> (cookie_setter w (''rampforge_token='' @ access_token (payload b)
                                          @ ''; path=/; secure; samesite=strict'')
                         = Store TOKEN_KEY (access_token (payload b))
                       \<longrightarrow> cookie w' TOKEN_KEY = Some (access_token (payload b))))
             \<and> (stringify J (resp_user (payload b)) \<noteq> []
                  \<and> parse J (stringify J (resp_user (payload b))) = Inr (Some (resp_user (payload b)))
                  \<longrightarrow> getUser J e' = Inr (Some (resp_user (payload b))))
             \<and> isAuthenticated (AuthProvider_value s' e') = (access_token (payload b) \<noteq> [])
             \<and> session_state (AuthProvider_value s' e')
                 = (if isLoading s then Initializing
                    else if access_token (payload b) \<noteq> []
                    then Authenticated (resp_user (payload b))
                    else Unauthenticated))"
      using login_success_store [OF a, where J = J and em = em and pw = pw and s = s]
      by (auto simp: getUser_def getToken_def session_state_def AuthProvider_value_def
            truthy_def split: prod.splits)
  qed
  show ?thesis
    by (rule conjI [OF fail conjI [OF rej conjI [OF nok succ]]])
qed

theorem login_outcomes_witness:
  "snd (login example_json \<lparr>cred_email = ''a@b.com'', password = ''pw''\<rparr> (Rejected TypeError)
          (Some empty_window)) = Inl TypeError
   \<and> \<not> ok (\<lparr>status = 401, json = Inl SyntaxError\<rparr> :: auth_response response)
   \<and> ok example_login_response
   \<and> stringify example_json example_user \<noteq> []
   \<and> parse example_json (stringify example_json example_user) = Inr (Some example_user)
   \<and> cookie_setter empty_window ''rampforge_token=T1; path=/; secure; samesite=strict''
       = Store TOKEN_KEY ''T1''
   \<and> AuthProvider_login example_json ''a@b.com'' ''pw'' (Rejected TypeError)
        (\<lparr>user = None, isLoading = False\<rparr>, Some empty_window)
       = ((\<lparr>user = None, isLoading = False\<rparr>, Some empty_window), Inl TypeError)
   \<and> (case AuthProvider_login example_json ''a@b.com'' ''pw'' (Resolved example_login_response)
              (\<lparr>user = None, isLoading = False\<rparr>, Some empty_window) of
         ((s', e'), res) \<Rightarrow>
           getToken e' = Some ''T1'' \<and> getUser example_json e' = Inr (Some example_user)
           \<and> (\<exists>w'. e' = Some w' \<and> cookie w' TOKEN_KEY = Some ''T1'')
           \<and> session_state (AuthProvider_value s' e') = Authenticated example_user)"
proof -
  have ok1: "ok example_login_response"
    by (simp add: ok_def example_login_response_def)
  have js: "json example_login_response
      = Inr \<lparr>detail = None, message = None,
             payload = \<lparr>access_token = ''T1'', token_type = ''bearer'', expires_in = 3600,
                        resp_user = example_user\<rparr>\<rparr>"
    by (simp add: example_login_response_def)
  have cod: "stringify example_json example_user \<noteq> []"
      "parse example_json (stringify example_json example_user) = Inr (Some example_user)"
    by (simp_all add: example_json_def example_user_def)
  have ck: "cookie_setter empty_window ''rampforge_token=T1; path=/; secure; samesite=strict''
       = Store TOKEN_KEY ''T1''"
    by (simp add: empty_window_def example_setter_def TOKEN_KEY_def)
  have nok: "\<not> ok (\<lparr>status = 401, json = Inl SyntaxError\<rparr> :: auth_response response)"
    by (simp add: ok_def)
  have f: "snd (login example_json \<lparr>cred_email = ''a@b.com'', password = ''pw''\<rparr>
          (Rejected TypeError) (Some empty_window)) = Inl TypeError"
    by (simp add: login_def)
  show ?thesis
    using login_outcomes [where J = example_json and em = "''a@b.com''" and pw = "''pw''"
        and f = "Rejected TypeError" and e = "Some empty_window" and err = TypeError
        and s = "\<lparr>user = None, isLoading = False\<rparr>" and r = example_login_response
        and w = empty_window
        and b = "\<lparr>detail = None, message = None,
             payload = \<lparr>access_token = ''T1'', token_type = ''bearer'', expires_in = 3600,
                        resp_user = example_user\<rparr>\<rparr>"]
      ok1 js cod ck nok f
    by (auto split: prod.splits)
qed

section \<open>Access Guard properties\<close>

text \<open>
  C7. The guard is meant to render its children only for a user whose role is among the
  required ones. At an authenticated user with role \<open>developer\<close> under
  \<open>requiredRole = ['admin']\<close> the effect pushes \<open>/unauthorized\<close>, and the component
  renders its children all the same.
\<close>

theorem ProtectedRoute_wrong_role_renders_children:
  "session_state (AuthProvider_value \<lparr>user = Some example_user, isLoading = False\<rparr>
      (Some warm_window)) = Authenticated example_user
   \<and> role example_user \<notin> set [''admin'']
   \<and> ProtectedRoute_render (AuthProvider_value \<lparr>user = Some example_user, isLoading = False\<rparr>
        (Some warm_window)) = Children
   \<and> ProtectedRoute_effect [''admin'']
        (AuthProvider_value \<lparr>user = Some example_user, isLoading = False\<rparr> (Some warm_window))
       = [''/unauthorized'']"
  by (simp add: session_state_def truthy_warm ProtectedRoute_render_def
        ProtectedRoute_effect_def AuthProvider_value_def example_user_def)

text \<open>
  What the guard does in each session state that the provider can show: the fallback and
  no navigation while Initializing, nothing and one push to \<open>/login\<close> while
  Unauthenticated, and for an authenticated user the children in every case, with one push
  to \<open>/unauthorized\<close> when the role is not among the required ones.
\<close>

lemma ProtectedRoute_by_state:
  "(session_state (AuthProvider_value s e) = Initializing \<longrightarrow>
      ProtectedRoute_render (AuthProvider_value s e) = Fallback
      \<and> ProtectedRoute_effect requiredRole (AuthProvider_value s e) = [])
   \<and> (session_state (AuthProvider_value s e) = Unauthenticated \<longrightarrow>
      ProtectedRoute_render (AuthProvider_value s e) = Nothing
      \<and> ProtectedRoute_effect requiredRole (AuthProvider_value s e) = [''/login''])
   \<and> (session_state (AuthProvider_value s e) = Authenticated u \<longrightarrow>
      ProtectedRoute_render (AuthProvider_value s e) = Children
      \<and> ProtectedRoute_effect requiredRole (AuthProvider_value s e)
          = (if requiredRole \<noteq> [] \<and> role u \<notin> set requiredRole then [''/unauthorized'']
             else []))"
  by (auto simp: session_state_def AuthProvider_value_def ProtectedRoute_render_def
        ProtectedRoute_effect_def split: option.splits if_splits)

section \<open>API client properties\<close>

lemma handleResponse_401:
  "status r = 401 \<Longrightarrow>
     fst (handleResponse D r (s, Some w)) = D ''auth-expired'' (s, removeToken (Some w))"
  by (simp add: Let_def removeToken_def TOKEN_KEY_def USER_KEY_def split: sum.splits)

lemma handleResponse_other:
  "status r \<noteq> 401 \<or> e = None \<Longrightarrow> fst (handleResponse D r (s, e)) = (s, e)"
  by (auto simp: Let_def split: sum.splits)

lemma removeToken_Some:
  "\<exists>w'. removeToken (Some w) = Some w' \<and> localStorage w' TOKEN_KEY = None
        \<and> localStorage w' USER_KEY = None \<and> cookie w' TOKEN_KEY = None"
  by (simp add: removeToken_def set_cookie_def removeItem_def)

text \<open>
  C10. On a response with status 401 in the browser, \<open>handleResponse\<close> hands the
  \<open>auth-expired\<close> event to the listeners in an environment from which token, user
  snapshot and mirrored cookie are already gone; with the listener of the provider the
  user becomes null. Without a 401, or without a window, nothing is dispatched or changed.
\<close>

theorem handleResponse_clears_before_dispatch:
  "(status r = 401 \<longrightarrow>
      fst (handleResponse D r (s, Some w)) = D ''auth-expired'' (s, removeToken (Some w))
      \<and> fst (handleResponse AuthProvider_listener r (s, Some w))
          = (s\<lparr>user := None\<rparr>, removeToken (Some w)))
   \<and> getToken (removeToken (Some w)) = None
   \<and> getUser J (removeToken (Some w)) = Inr None
   \<and> (\<exists>w'. removeToken (Some w) = Some w' \<and> localStorage w' TOKEN_KEY = None
         \<and> localStorage w' USER_KEY = None \<and> cookie w' TOKEN_KEY = None)
   \<and> (status r \<noteq> 401 \<or> e = None \<longrightarrow> fst (handleResponse D r (s, e)) = (s, e))"
  using removeToken_Some [of w] handleResponse_other [of r e D s]
  by (simp add: handleResponse_401 getToken_removeToken getUser_removeToken
        handleAuthExpired_def del: handleResponse.simps)

theorem handleResponse_clears_before_dispatch_witness:
  "status (\<lparr>status = 401, json = Inl SyntaxError\<rparr> :: unit response) = 401
   \<and> fst (handleResponse AuthProvider_listener
            (\<lparr>status = 401, json = Inl SyntaxError\<rparr> :: unit response)
            (\<lparr>user = Some example_user, isLoading = False\<rparr>, Some warm_window))
      = (\<lparr>user = None, isLoading = False\<rparr>, Some empty_window)
   \<and> fst (handleResponse AuthProvider_listener
            (\<lparr>status = 401, json = Inl SyntaxError\<rparr> :: unit response)
            (\<lparr>user = Some example_user, isLoading = False\<rparr>, None))
      = (\<lparr>user = Some example_user, isLoading = False\<rparr>, None)"
proof -
  have rm: "removeToken (Some warm_window) = Some empty_window"
    by (simp add: removeToken_def set_cookie_def removeItem_def warm_window_def
          empty_window_def TOKEN_KEY_def USER_KEY_def)
  show ?thesis
    using handleResponse_clears_before_dispatch
      [where r = "\<lparr>status = 401, json = Inl SyntaxError\<rparr> :: unit response"
        and D = AuthProvider_listener and s = "\<lparr>user = Some example_user, isLoading = False\<rparr>"
        and w = warm_window and J = example_json and e = None]
    by (simp add: rm handleAuthExpired_def del: handleResponse.simps)
qed

end
